theory Spec2Isabelle
  imports Complex_Main
begin

section \<open>The tile of harp-mapview (lib/Tile.ts)\<close>

text \<open>
  A shallow embedding of class \<open>Tile\<close>. Frame numbers and byte counts are the
  integer-valued JavaScript numbers of the source and are modelled as \<open>int\<close>;
  elevations and areas are modelled as \<open>real\<close> (no NaN, no rounding). Objects the
  tile only refers to (loaders, handlers, geometries, textures, text elements) are
  represented by their identity, a natural number. Fields that no method of the class
  writes after construction (tile key, offset, dependencies, the frame statistics
  other than \<open>frameNumLastRequested\<close>) are left out.
\<close>

subsection \<open>Data the tile refers to\<close>

type_synonym ref = nat

type_synonym Vector3 = "real \<times> real \<times> real"

record GeoCoordinates =
  latitude :: real
  longitude :: real
  altitude :: "real option"

record GeoBox =
  southWest :: GeoCoordinates
  northEast :: GeoCoordinates

record OrientedBox3 =
  position :: Vector3
  xAxis :: Vector3
  yAxis :: Vector3
  zAxis :: Vector3
  extents :: Vector3

text \<open>
  Modelled from the spec: the calculation-status tag of an elevation range; its
  declaration (ElevationRangeSource) is not among the sources. The spec names the tags
  "pending", "approximate" and "final".
\<close>

datatype CalculationStatus = Pending | Approximate | Final

record ElevationRange =
  minElevation :: real
  maxElevation :: real
  calculationStatus :: "CalculationStatus option"

text \<open>
  The fields of a decoded tile that \<open>Tile\<close> reads. \<open>tileInfo\<close> stands for
  \<open>tileInfo.numBytes\<close>, the only part of the tile info that is read.
\<close>

record DecodedTile =
  geometries :: "nat list"
  boundingBox :: "OrientedBox3 option"
  maxGeometryHeight :: "real option"
  decodeTime :: "real option"
  copyrightHolderIds :: "string list option"
  tileInfo :: "int option"

record CopyrightInfo =
  copyrightId :: string

record TileResourceInfo =
  heapSize :: int
  gpuSize :: int
  num3dObjects :: int
  numTextElements :: int
  numUserTextElements :: int

text \<open>
  A material with its texture-valued properties, and a \<open>THREE.Object3D\<close> with the
  optional members of \<open>DisposableObject\<close> and its children.
\<close>

datatype Material = Material (materialId: nat) (materialTextures: "nat list")

datatype MaterialSlot = SingleMaterial Material | MaterialArray "Material option list"

datatype TileObject =
  TileObject (visible: bool) (geometry: "nat option") (objGeometries: "nat list option")
    (material: "MaterialSlot option") (children: "TileObject list")

record TextElement =
  elementId :: nat
  priority :: int

text \<open>
  Modelled from the spec: \<open>TextElementGroupPriorityList\<close> (text/TextElementGroupPriorityList
  is not among the sources), a mapping from priority to the group of labels of that
  priority, in insertion order, with add, remove, clear, count and clone. A group holds
  the identities of its labels.
\<close>

type_synonym TextElementGroupPriorityList = "(int \<times> nat list) list"

text \<open>Modelled from the spec: add inserts into the group keyed by the label's priority,
  creating the group if absent.\<close>

fun groups_add :: "TextElement \<Rightarrow> TextElementGroupPriorityList \<Rightarrow> TextElementGroupPriorityList" where
  "groups_add e [] = [(priority e, [elementId e])]"
| "groups_add e ((p, es) # gs) =
     (if p = priority e then (p, es @ [elementId e]) # gs else (p, es) # groups_add e gs)"

text \<open>Modelled from the spec: remove takes the label out of the group of its current
  priority; false if there is no such group or the label is not in it.\<close>

fun groups_remove ::
  "TextElement \<Rightarrow> TextElementGroupPriorityList \<Rightarrow> bool \<times> TextElementGroupPriorityList" where
  "groups_remove e [] = (False, [])"
| "groups_remove e ((p, es) # gs) =
     (if p = priority e
      then (if elementId e \<in> set es then (True, (p, remove1 (elementId e) es) # gs)
            else (False, (p, es) # gs))
      else (case groups_remove e gs of (b, gs') \<Rightarrow> (b, (p, es) # gs')))"

text \<open>Modelled from the spec: clear empties all groups; count is the number of labels
  in all groups.\<close>

definition groups_clear :: "TextElementGroupPriorityList \<Rightarrow> TextElementGroupPriorityList" where
  "groups_clear gs = []"

definition groups_count :: "TextElementGroupPriorityList \<Rightarrow> int" where
  "groups_count gs = sum_list (map (\<lambda>g. int (length (snd g))) gs)"

subsection \<open>What the tile does to its surroundings\<close>

datatype event =
    LoaderCancel ref
  | LoaderUpdatePriority ref real
  | GeometryLoaderDispose ref
  | GeometryDispose nat
  | TextureDispose nat
  | MaterialDispose nat
  | ExtrusionHandlerDispose ref
  | TextStyleCacheClear
  | StatsAddValue string real
  | RequestUpdate

datatype error = AssertionFailed

text \<open>
  The collaborators of the tile that are not part of the class: the projection of the
  data source, the statistics switch, the constant \<open>TextElement.HIGHEST_PRIORITY\<close> and
  the size estimator of \<open>MapViewUtils\<close>.
\<close>

record env =
  projectBox :: "GeoBox \<Rightarrow> OrientedBox3 \<Rightarrow> OrientedBox3"
  statsEnabled :: bool
  highestPriority :: int
  estimateObject3dSize ::
    "TileObject \<Rightarrow> (int \<times> int) \<times> (string \<rightharpoonup> bool) \<Rightarrow> (int \<times> int) \<times> (string \<rightharpoonup> bool)"

subsection \<open>The state of a tile\<close>

text \<open>
  The fields of the class that its methods read or write, under their names. The
  label store is an object that a renderer may hold on to, so \<open>m_textElementGroups\<close>
  is a reference into \<open>heap\<close>, the store of all \<open>TextElementGroupPriorityList\<close>
  objects allocated so far; \<open>effects\<close> lists the calls made on other objects, oldest
  first.
\<close>

record Tile =
  objects :: "TileObject list"
  geoBox :: GeoBox
  copyrightInfo :: "CopyrightInfo list option"
  frameNumLastRequested :: int
  visibilityCounter :: int
  preparedTextPaths :: "nat list option"
  m_boundingBox :: OrientedBox3
  m_disposed :: bool
  m_forceHasGeometry :: "bool option"
  m_tileLoader :: "ref option"
  m_decodedTile :: "DecodedTile option"
  m_tileGeometryLoader :: "ref option"
  m_textElementGroups :: ref
  m_pathBlockingElements :: "nat list"
  m_textElementsChanged :: "bool option"
  m_worldCenter :: Vector3
  m_visibleArea :: real
  m_elevationRange :: ElevationRange
  m_maxGeometryHeight :: "real option"
  m_resourceInfo :: "TileResourceInfo option"
  m_ownedTextures :: "nat list"
  m_animatedExtrusionTileHandler :: "ref option"
  heap :: "TextElementGroupPriorityList list"
  effects :: "event list"

definition deref :: "Tile \<Rightarrow> ref \<Rightarrow> TextElementGroupPriorityList" where
  "deref t r = (if r < length (heap t) then heap t ! r else [])"

text \<open>\<open>clone\<close> of the label store: a new object with the same groups.\<close>

definition clone :: "ref \<Rightarrow> Tile \<Rightarrow> ref \<times> Tile" where
  "clone r t = (length (heap t), t\<lparr>heap := heap t @ [deref t r]\<rparr>)"

subsection \<open>Bounds\<close>

definition updateBoundingBox :: "env \<Rightarrow> OrientedBox3 option \<Rightarrow> Tile \<Rightarrow> Tile" where
  "updateBoundingBox en newBoundingBox t =
     (case newBoundingBox of
        Some b \<Rightarrow> t\<lparr>m_boundingBox := b, m_worldCenter := position b\<rparr>
      | None \<Rightarrow> t\<lparr>m_boundingBox := projectBox en (geoBox t) (m_boundingBox t)\<rparr>)"

definition elevateGeoBox :: "Tile \<Rightarrow> Tile" where
  "elevateGeoBox t =
     t\<lparr>geoBox := (geoBox t)
        \<lparr>southWest := (southWest (geoBox t))\<lparr>altitude := Some (minElevation (m_elevationRange t))\<rparr>,
         northEast := (northEast (geoBox t))\<lparr>altitude :=
           Some (maxElevation (m_elevationRange t)
                 + (case m_maxGeometryHeight t of Some h \<Rightarrow> h | None \<Rightarrow> 0))\<rparr>\<rparr>\<rparr>"

text \<open>The constructor; \<open>gb\<close> is the geo box the tiling scheme gives for the tile key.\<close>

definition newTile :: "env \<Rightarrow> GeoBox \<Rightarrow> Tile" where
  "newTile en gb =
     (let b = projectBox en gb
                \<lparr>position = (0, 0, 0), xAxis = (1, 0, 0), yAxis = (0, 1, 0), zAxis = (0, 0, 1),
                 extents = (0, 0, 0)\<rparr>
      in \<lparr>objects = [], geoBox = gb, copyrightInfo = None, frameNumLastRequested = - 1,
          visibilityCounter = - 1, preparedTextPaths = None, m_boundingBox = b,
          m_disposed = False, m_forceHasGeometry = None, m_tileLoader = None,
          m_decodedTile = None, m_tileGeometryLoader = None, m_textElementGroups = 0,
          m_pathBlockingElements = [], m_textElementsChanged = None,
          m_worldCenter = position b, m_visibleArea = 0,
          m_elevationRange = \<lparr>minElevation = 0, maxElevation = 0, calculationStatus = None\<rparr>,
          m_maxGeometryHeight = None, m_resourceInfo = None, m_ownedTextures = [],
          m_animatedExtrusionTileHandler = None, heap = [[]], effects = []\<rparr>)"

subsection \<open>Visibility\<close>

text \<open>\<open>frameNumber\<close> is \<open>dataSource.mapView.frameNumber\<close> at the time of the call.\<close>

definition isVisible :: "int \<Rightarrow> Tile \<Rightarrow> bool" where
  "isVisible frameNumber t \<longleftrightarrow> frameNumLastRequested t \<ge> frameNumber - 1"

definition isVisible_set :: "int \<Rightarrow> bool \<Rightarrow> Tile \<Rightarrow> Tile" where
  "isVisible_set frameNumber visible' t =
     t\<lparr>frameNumLastRequested := (if visible' then frameNumber else - 1)\<rparr>"

definition resetVisibilityCounter :: "Tile \<Rightarrow> Tile" where
  "resetVisibilityCounter t = t\<lparr>visibilityCounter := - 1\<rparr>"

definition visibleArea_set :: "real \<Rightarrow> Tile \<Rightarrow> Tile" where
  "visibleArea_set area t =
     (let t1 = t\<lparr>m_visibleArea := area\<rparr>
      in case m_tileLoader t1 of
           Some l \<Rightarrow> t1\<lparr>effects := effects t1 @ [LoaderUpdatePriority l area]\<rparr>
         | None \<Rightarrow> t1)"

subsection \<open>Resource info\<close>

fun objectsLoop ::
  "env \<Rightarrow> TileObject list \<Rightarrow> int \<times> (int \<times> int) \<times> (string \<rightharpoonup> bool)
     \<Rightarrow> int \<times> (int \<times> int) \<times> (string \<rightharpoonup> bool)" where
  "objectsLoop en [] acc = acc"
| "objectsLoop en (object # rest) (num3d, agg) =
     objectsLoop en rest
       ((if visible object then num3d + 1 else num3d), estimateObject3dSize en object agg)"

definition resourceInfoOf :: "env \<Rightarrow> Tile \<Rightarrow> TileResourceInfo" where
  "resourceInfoOf en t =
     (case objectsLoop en (objects t) (0, (0, 0), Map.empty) of
        (num3d, (aggHeap, aggGpu), visited) \<Rightarrow>
          (let numText = groups_count (deref t (m_textElementGroups t));
               heap' = 0 + numText * 312;
               aggHeap' = (case m_decodedTile t of
                             None \<Rightarrow> aggHeap
                           | Some d \<Rightarrow> (case tileInfo d of None \<Rightarrow> aggHeap | Some n \<Rightarrow> aggHeap + n))
           in \<lparr>heapSize = aggHeap' + heap', gpuSize = aggGpu, num3dObjects = num3d,
               numTextElements = numText, numUserTextElements = 0\<rparr>))"

definition computeResourceInfo :: "env \<Rightarrow> Tile \<Rightarrow> Tile" where
  "computeResourceInfo en t = t\<lparr>m_resourceInfo := Some (resourceInfoOf en t)\<rparr>"

text \<open>\<open>getResourceInfo\<close> returns the snapshot and the tile, whose cache it may have filled.\<close>

definition getResourceInfo :: "env \<Rightarrow> Tile \<Rightarrow> TileResourceInfo \<times> Tile" where
  "getResourceInfo en t =
     (case m_resourceInfo t of
        None \<Rightarrow> (resourceInfoOf en t, computeResourceInfo en t)
      | Some info \<Rightarrow> (info, t))"

definition memoryUsage :: "env \<Rightarrow> Tile \<Rightarrow> int \<times> Tile" where
  "memoryUsage en t =
     (case m_resourceInfo t of
        None \<Rightarrow> (heapSize (resourceInfoOf en t), computeResourceInfo en t)
      | Some info \<Rightarrow> (heapSize info, t))"

definition invalidateResourceInfo :: "Tile \<Rightarrow> Tile" where
  "invalidateResourceInfo t = t\<lparr>m_resourceInfo := None\<rparr>"

definition addOwnedTexture :: "nat \<Rightarrow> Tile \<Rightarrow> Tile" where
  "addOwnedTexture texture t = t\<lparr>m_ownedTextures := texture # m_ownedTextures t\<rparr>"

subsection \<open>Text elements\<close>

definition textElementGroups :: "Tile \<Rightarrow> ref" where
  "textElementGroups t = m_textElementGroups t"

definition textElementsChanged :: "Tile \<Rightarrow> bool" where
  "textElementsChanged t = (case m_textElementsChanged t of Some b \<Rightarrow> b | None \<Rightarrow> False)"

definition textElementsChanged_set :: "bool \<Rightarrow> Tile \<Rightarrow> Tile" where
  "textElementsChanged_set changed t = t\<lparr>m_textElementsChanged := Some changed\<rparr>"

definition hasTextElements :: "Tile \<Rightarrow> bool" where
  "hasTextElements t \<longleftrightarrow> groups_count (deref t (m_textElementGroups t)) > 0"

text \<open>The label is added to the live store first; the store is cloned afterwards, when
  the change flag is \<open>false\<close> (and not when it is still undefined).\<close>

definition addTextElement :: "TextElement \<Rightarrow> Tile \<Rightarrow> Tile" where
  "addTextElement textElement t =
     (let r = textElementGroups t;
          t1 = t\<lparr>heap := (heap t)[r := groups_add textElement (deref t r)]\<rparr>;
          t2 = (if m_textElementsChanged t1 = Some False
                then (case clone (textElementGroups t1) t1 of
                        (c, t') \<Rightarrow> t'\<lparr>m_textElementGroups := c\<rparr>)
                else t1)
      in textElementsChanged_set True t2)"

text \<open>The deprecated entry points for developer-defined labels. The getter returns the
  labels of the group of highest priority, which it creates when absent.\<close>

definition userTextElements :: "env \<Rightarrow> Tile \<Rightarrow> nat list \<times> Tile" where
  "userTextElements en t =
     (let r = m_textElementGroups t; gs = deref t r
      in case map_of gs (highestPriority en) of
           Some es \<Rightarrow> (es, t)
         | None \<Rightarrow> ([], t\<lparr>heap := (heap t)[r := gs @ [(highestPriority en, [])]]\<rparr>))"

definition addUserTextElement :: "env \<Rightarrow> TextElement \<Rightarrow> Tile \<Rightarrow> Tile" where
  "addUserTextElement en textElement t =
     addTextElement (textElement\<lparr>priority := highestPriority en\<rparr>) t"

definition addBlockingElement :: "nat \<Rightarrow> Tile \<Rightarrow> Tile" where
  "addBlockingElement blockingElement t =
     t\<lparr>m_pathBlockingElements := m_pathBlockingElements t @ [blockingElement]\<rparr>"

definition removeTextElement :: "TextElement \<Rightarrow> Tile \<Rightarrow> bool \<times> Tile" where
  "removeTextElement textElement t =
     (let groups = textElementGroups t
      in case groups_remove textElement (deref t groups) of
           (removed, gs') \<Rightarrow>
             (let t1 = t\<lparr>heap := (heap t)[groups := gs']\<rparr>
              in if \<not> removed then (False, t1)
                 else (let t2 = (if m_textElementsChanged t1 = Some False
                                 then (case clone groups t1 of
                                         (c, t') \<Rightarrow> t'\<lparr>m_textElementGroups := c\<rparr>)
                                 else t1)
                       in (True, textElementsChanged_set True t2))))"

definition removeUserTextElement :: "env \<Rightarrow> TextElement \<Rightarrow> Tile \<Rightarrow> bool \<times> Tile" where
  "removeUserTextElement en textElement t =
     removeTextElement (textElement\<lparr>priority := highestPriority en\<rparr>) t"

definition clearTextElements :: "Tile \<Rightarrow> Tile" where
  "clearTextElements t =
     (if \<not> hasTextElements t then t
      else (let t1 = textElementsChanged_set True t;
                t2 = t1\<lparr>m_pathBlockingElements := []\<rparr>;
                r = textElementGroups t2
            in t2\<lparr>heap := (heap t2)[r := groups_clear (deref t2 r)]\<rparr>))"

subsection \<open>Elevation range and decoded tile\<close>

definition forceHasGeometry :: "bool option \<Rightarrow> Tile \<Rightarrow> Tile" where
  "forceHasGeometry v t = t\<lparr>m_forceHasGeometry := v\<rparr>"

definition hasGeometry :: "Tile \<Rightarrow> bool" where
  "hasGeometry t =
     (case m_forceHasGeometry t of None \<Rightarrow> length (objects t) \<noteq> 0 | Some b \<Rightarrow> b)"

definition decodedTile :: "Tile \<Rightarrow> DecodedTile option" where
  "decodedTile t = m_decodedTile t"

text \<open>
  The setter of \<open>elevationRange\<close>. A failed \<open>assert\<close> throws: the result is then
  \<open>Inl\<close>, with the tile as the throw leaves it.
\<close>

definition elevationRange_set :: "env \<Rightarrow> ElevationRange \<Rightarrow> Tile \<Rightarrow> (error \<times> Tile) + Tile" where
  "elevationRange_set en elevationRange t =
     (if minElevation elevationRange = minElevation (m_elevationRange t) \<and>
         maxElevation elevationRange = maxElevation (m_elevationRange t) \<and>
         calculationStatus elevationRange = calculationStatus (m_elevationRange t)
      then Inr t
      else (let t1 = t\<lparr>m_elevationRange := (m_elevationRange t)
                        \<lparr>minElevation := minElevation elevationRange,
                         maxElevation := maxElevation elevationRange,
                         calculationStatus := calculationStatus elevationRange\<rparr>\<rparr>;
                t2 = elevateGeoBox t1
            in if m_maxGeometryHeight t2 \<noteq> None
               then (if (case decodedTile t2 of None \<Rightarrow> True | Some d \<Rightarrow> boundingBox d = None)
                     then Inr (updateBoundingBox en None t2)
                     else Inl (AssertionFailed, t2))
               else Inr t2))"

definition decodedTile_set :: "env \<Rightarrow> DecodedTile option \<Rightarrow> Tile \<Rightarrow> Tile" where
  "decodedTile_set en decoded t =
     (let t1 = invalidateResourceInfo (t\<lparr>m_decodedTile := decoded\<rparr>)
      in case decoded of
           None \<Rightarrow> t1
         | Some d \<Rightarrow>
             (let t2 = (if length (geometries d) = 0 then forceHasGeometry (Some True) t1 else t1);
                  t3 = t2\<lparr>m_maxGeometryHeight :=
                          (case boundingBox d of
                             Some b \<Rightarrow> None
                           | None \<Rightarrow> (case maxGeometryHeight d of Some h \<Rightarrow> Some h | None \<Rightarrow> Some 0))\<rparr>;
                  t4 = elevateGeoBox t3;
                  t5 = updateBoundingBox en (boundingBox d) t4;
                  t6 = (case decodeTime d of
                          Some dt \<Rightarrow>
                            (if statsEnabled en
                             then t5\<lparr>effects := effects t5 @
                                    [StatsAddValue ''decode.decodingTime'' dt,
                                     StatsAddValue ''decode.decodedTiles'' 1]\<rparr>
                             else t5)
                        | None \<Rightarrow> t5);
                  t7 = (case copyrightHolderIds d of
                          Some ids \<Rightarrow> t6\<lparr>copyrightInfo := Some (map (\<lambda>i. \<lparr>copyrightId = i\<rparr>) ids)\<rparr>
                        | None \<Rightarrow> t6)
              in t7\<lparr>effects := effects t7 @ [RequestUpdate]\<rparr>))"

definition removeDecodedTile :: "Tile \<Rightarrow> Tile" where
  "removeDecodedTile t = invalidateResourceInfo (t\<lparr>m_decodedTile := None\<rparr>)"

subsection \<open>Loaders and handlers\<close>

definition tileLoader_set :: "ref option \<Rightarrow> Tile \<Rightarrow> Tile" where
  "tileLoader_set l t = t\<lparr>m_tileLoader := l\<rparr>"

definition tileGeometryLoader_set :: "ref option \<Rightarrow> Tile \<Rightarrow> Tile" where
  "tileGeometryLoader_set l t = t\<lparr>m_tileGeometryLoader := l\<rparr>"

definition animatedExtrusionTileHandler_set :: "ref option \<Rightarrow> Tile \<Rightarrow> Tile" where
  "animatedExtrusionTileHandler_set h t = t\<lparr>m_animatedExtrusionTileHandler := h\<rparr>"

subsection \<open>Clearing and disposal\<close>

definition shouldDisposeObjectGeometry :: "Tile \<Rightarrow> TileObject \<Rightarrow> bool" where
  "shouldDisposeObjectGeometry t object = True"

definition shouldDisposeObjectMaterial :: "Tile \<Rightarrow> TileObject \<Rightarrow> bool" where
  "shouldDisposeObjectMaterial t object = True"

definition shouldDisposeTexture :: "Tile \<Rightarrow> nat \<Rightarrow> bool" where
  "shouldDisposeTexture t texture \<longleftrightarrow> texture \<in> set (m_ownedTextures t)"

definition disposeMaterial :: "Tile \<Rightarrow> Material \<Rightarrow> event list" where
  "disposeMaterial t m =
     map TextureDispose (filter (shouldDisposeTexture t) (materialTextures m))
     @ [MaterialDispose (materialId m)]"

definition disposeObject :: "Tile \<Rightarrow> TileObject \<Rightarrow> event list" where
  "disposeObject t object =
     (if shouldDisposeObjectGeometry t object
      then (case geometry object of Some g \<Rightarrow> [GeometryDispose g] | None \<Rightarrow> [])
           @ (case objGeometries object of Some gs \<Rightarrow> map GeometryDispose gs | None \<Rightarrow> [])
      else [])
     @ (case material object of
          None \<Rightarrow> []
        | Some slot \<Rightarrow>
            (if shouldDisposeObjectMaterial t object
             then (case slot of
                     MaterialArray ms \<Rightarrow>
                       concat (map (\<lambda>m. case m of Some m' \<Rightarrow> disposeMaterial t m' | None \<Rightarrow> []) ms)
                   | SingleMaterial m \<Rightarrow> disposeMaterial t m)
             else []))"

text \<open>\<open>Object3D.traverse\<close>: the object itself, then its descendants, depth first.\<close>

fun traverse :: "TileObject \<Rightarrow> TileObject list" where
  "traverse (TileObject v g gs m cs) = TileObject v g gs m cs # concat (map traverse cs)"

definition clear :: "Tile \<Rightarrow> Tile" where
  "clear t =
     (let released = concat (map (\<lambda>rootObject.
                         concat (map (disposeObject t) (traverse rootObject))
                         @ disposeObject t rootObject) (objects t));
          t1 = t\<lparr>effects := effects t @ released, objects := []\<rparr>;
          t2 = (case preparedTextPaths t1 of Some ps \<Rightarrow> t1\<lparr>preparedTextPaths := Some []\<rparr> | None \<Rightarrow> t1);
          t3 = (case m_animatedExtrusionTileHandler t2 of
                  Some h \<Rightarrow> t2\<lparr>effects := effects t2 @ [ExtrusionHandlerDispose h]\<rparr>
                | None \<Rightarrow> t2);
          t4 = t3\<lparr>effects := effects t3 @ [TextStyleCacheClear]\<rparr>;
          t5 = clearTextElements t4
      in invalidateResourceInfo t5)"

definition dispose :: "Tile \<Rightarrow> Tile" where
  "dispose t =
     (if m_disposed t then t
      else (let t1 = (case m_tileLoader t of
                        Some l \<Rightarrow> t\<lparr>effects := effects t @ [LoaderCancel l], m_tileLoader := None\<rparr>
                      | None \<Rightarrow> t);
                t2 = (case m_tileGeometryLoader t1 of
                        Some g \<Rightarrow> t1\<lparr>effects := effects t1 @ [GeometryLoaderDispose g],
                                    m_tileGeometryLoader := None\<rparr>
                      | None \<Rightarrow> t1);
                t3 = clear t2
            in t3\<lparr>m_disposed := True, frameNumLastRequested := 0\<rparr>))"

subsection \<open>Sequences of calls\<close>

text \<open>
  The calls that change a tile, \<open>ObjectsPush\<close> being a push onto the public
  \<open>objects\<close> array. A call that throws leaves the tile as it is at the throw, and the
  caller goes on with that tile. \<open>load\<close> changes the tile when its loader settles,
  by an assignment to \<open>decodedTile\<close>, which is the call \<open>DecodedTileSet\<close>;
  \<open>update\<close>, \<open>willRender\<close> and \<open>didRender\<close> write no field of the tile.
\<close>

datatype call =
    IsVisibleSet int bool
  | ResetVisibilityCounter
  | VisibleAreaSet real
  | GetResourceInfo
  | MemoryUsage
  | InvalidateResourceInfo
  | AddOwnedTexture nat
  | UserTextElements
  | AddUserTextElement TextElement
  | RemoveUserTextElement TextElement
  | AddTextElement TextElement
  | AddBlockingElement nat
  | RemoveTextElement TextElement
  | TextElementsChangedSet bool
  | ClearTextElements
  | ElevationRangeSet ElevationRange
  | DecodedTileSet "DecodedTile option"
  | RemoveDecodedTile
  | ForceHasGeometry "bool option"
  | TileLoaderSet "ref option"
  | TileGeometryLoaderSet "ref option"
  | AnimatedExtrusionTileHandlerSet "ref option"
  | ObjectsPush TileObject
  | Clear
  | Dispose

fun exec :: "env \<Rightarrow> call \<Rightarrow> Tile \<Rightarrow> Tile" where
  "exec en (IsVisibleSet n b) t = isVisible_set n b t"
| "exec en ResetVisibilityCounter t = resetVisibilityCounter t"
| "exec en (VisibleAreaSet a) t = visibleArea_set a t"
| "exec en GetResourceInfo t = snd (getResourceInfo en t)"
| "exec en MemoryUsage t = snd (memoryUsage en t)"
| "exec en InvalidateResourceInfo t = invalidateResourceInfo t"
| "exec en (AddOwnedTexture x) t = addOwnedTexture x t"
| "exec en UserTextElements t = snd (userTextElements en t)"
| "exec en (AddUserTextElement e) t = addUserTextElement en e t"
| "exec en (RemoveUserTextElement e) t = snd (removeUserTextElement en e t)"
| "exec en (AddTextElement e) t = addTextElement e t"
| "exec en (AddBlockingElement b) t = addBlockingElement b t"
| "exec en (RemoveTextElement e) t = snd (removeTextElement e t)"
| "exec en (TextElementsChangedSet b) t = textElementsChanged_set b t"
| "exec en ClearTextElements t = clearTextElements t"
| "exec en (ElevationRangeSet r) t =
     (case elevationRange_set en r t of Inl (e, t') \<Rightarrow> t' | Inr t' \<Rightarrow> t')"
| "exec en (DecodedTileSet d) t = decodedTile_set en d t"
| "exec en RemoveDecodedTile t = removeDecodedTile t"
| "exec en (ForceHasGeometry v) t = forceHasGeometry v t"
| "exec en (TileLoaderSet l) t = tileLoader_set l t"
| "exec en (TileGeometryLoaderSet l) t = tileGeometryLoader_set l t"
| "exec en (AnimatedExtrusionTileHandlerSet h) t = animatedExtrusionTileHandler_set h t"
| "exec en (ObjectsPush object) t = t\<lparr>objects := objects t @ [object]\<rparr>"
| "exec en Clear t = clear t"
| "exec en Dispose t = dispose t"

fun run :: "env \<Rightarrow> call list \<Rightarrow> Tile \<Rightarrow> Tile" where
  "run en [] t = t"
| "run en (c # cs) t = run en cs (exec en c t)"

subsection \<open>Example values\<close>

text \<open>A projection stand-in that places the box at the south-west corner and the top
  altitude of the geo box, an estimator that counts nothing, and a fresh tile.\<close>

definition exampleEnv :: env where
  "exampleEnv =
     \<lparr>projectBox = (\<lambda>g b. b\<lparr>position := (latitude (southWest g), longitude (southWest g),
        (case altitude (northEast g) of Some a \<Rightarrow> a | None \<Rightarrow> 0))\<rparr>),
      statsEnabled = True, highestPriority = 9007199254740991,
      estimateObject3dSize = (\<lambda>object s. s)\<rparr>"

definition exampleGeoBox :: GeoBox where
  "exampleGeoBox = \<lparr>southWest = \<lparr>latitude = 52, longitude = 13, altitude = None\<rparr>,
                     northEast = \<lparr>latitude = 53, longitude = 14, altitude = None\<rparr>\<rparr>"

definition exampleTile :: Tile where
  "exampleTile = newTile exampleEnv exampleGeoBox"

definition exampleBox :: OrientedBox3 where
  "exampleBox = \<lparr>position = (1, 2, 3), xAxis = (1, 0, 0), yAxis = (0, 1, 0), zAxis = (0, 0, 1),
                  extents = (4, 5, 6)\<rparr>"

definition boundedPayload :: DecodedTile where
  "boundedPayload = \<lparr>geometries = [1], boundingBox = Some exampleBox, maxGeometryHeight = None,
                      decodeTime = None, copyrightHolderIds = None, tileInfo = None\<rparr>"

definition emptyPayload :: DecodedTile where
  "emptyPayload = \<lparr>geometries = [], boundingBox = None, maxGeometryHeight = Some 30,
                    decodeTime = Some 2, copyrightHolderIds = Some [''here''],
                    tileInfo = Some 1000\<rparr>"

definition exampleRange :: ElevationRange where
  "exampleRange = \<lparr>minElevation = 10, maxElevation = 250, calculationStatus = Some Final\<rparr>"

definition label1 :: TextElement where
  "label1 = \<lparr>elementId = 1, priority = 0\<rparr>"

definition label2 :: TextElement where
  "label2 = \<lparr>elementId = 2, priority = 0\<rparr>"

text \<open>A tile with a loader, a geometry loader and a decoded payload.\<close>

definition loadedTile :: Tile where
  "loadedTile = decodedTile_set exampleEnv (Some emptyPayload)
                  (tileGeometryLoader_set (Some 8) (tileLoader_set (Some 7) exampleTile))"

text \<open>A fresh tile whose resource info has been read once.\<close>

definition snapshotTile :: Tile where
  "snapshotTile = snd (getResourceInfo exampleEnv exampleTile)"

text \<open>A tile with one label whose store the renderer has consumed: the change flag is
  reset to \<open>false\<close>.\<close>

definition consumedTile :: Tile where
  "consumedTile = textElementsChanged_set False (addTextElement label1 exampleTile)"

section \<open>Properties\<close>

subsection \<open>Visibility\<close>

text \<open>
  C1. For every tile and every current frame number \<open>N\<close>, \<open>isVisible\<close> is true
  exactly when \<open>frameNumLastRequested\<close> is at least \<open>N - 1\<close>: it is true when
  \<open>frameNumLastRequested\<close> is \<open>N - 1\<close> or \<open>N\<close>, and false when it is at most
  \<open>N - 2\<close>.
\<close>

theorem isVisible_window:
  "(isVisible N t \<longleftrightarrow> frameNumLastRequested t \<ge> N - 1) \<and>
   (frameNumLastRequested t = N - 1 \<or> frameNumLastRequested t = N \<longrightarrow> isVisible N t) \<and>
   (frameNumLastRequested t \<le> N - 2 \<longrightarrow> \<not> isVisible N t)"
  by (auto simp: isVisible_def)

text \<open>The scenario of the specification: requested at frame 10, visible at frame 11, not
  visible at frame 12.\<close>

theorem isVisible_window_witness:
  "frameNumLastRequested (isVisible_set 10 True exampleTile) = 11 - 1 \<and>
   isVisible 11 (isVisible_set 10 True exampleTile) \<and>
   frameNumLastRequested (isVisible_set 10 True exampleTile) \<le> 12 - 2 \<and>
   \<not> isVisible 12 (isVisible_set 10 True exampleTile)"
proof -
  have f: "frameNumLastRequested (isVisible_set 10 True exampleTile) = 10"
    by (simp add: isVisible_set_def)
  from f isVisible_window [of 11 "isVisible_set 10 True exampleTile"]
  have "isVisible 11 (isVisible_set 10 True exampleTile)" by simp
  moreover from f isVisible_window [of 12 "isVisible_set 10 True exampleTile"]
  have "\<not> isVisible 12 (isVisible_set 10 True exampleTile)" by simp
  ultimately show ?thesis using f by simp
qed

text \<open>
  C10. With the map view at a frame number \<open>N \<ge> 1\<close>, the setter of \<open>isVisible\<close>
  round-trips with the getter: after \<open>isVisible = true\<close> the tile is stamped with
  \<open>N\<close> and reads as visible; after \<open>isVisible = false\<close> it holds the sentinel \<open>-1\<close>
  and reads as not visible at frame \<open>N\<close> and at every later frame.
\<close>

theorem isVisible_roundtrip:
  "1 \<le> N \<Longrightarrow>
     frameNumLastRequested (isVisible_set N True t) = N \<and>
     isVisible N (isVisible_set N True t) \<and>
     frameNumLastRequested (isVisible_set N False t) = - 1 \<and>
     (\<forall>M\<ge>N. \<not> isVisible M (isVisible_set N False t))"
  by (auto simp: isVisible_def isVisible_set_def)

theorem isVisible_roundtrip_witness:
  "(1::int) \<le> 1 \<and> isVisible 1 (isVisible_set 1 True exampleTile) \<and>
   \<not> isVisible 1 (isVisible_set 1 False exampleTile) \<and>
   (7::int) \<ge> 1 \<and> \<not> isVisible 7 (isVisible_set 1 False exampleTile)"
proof -
  have h: "(1::int) \<le> 1" by simp
  from isVisible_roundtrip [OF h, of exampleTile] show ?thesis by simp
qed

subsection \<open>Bounds\<close>

text \<open>
  C6. An elevation-range update whose minimum, maximum and calculation status equal the
  stored ones is a no-op: it returns without throwing and the tile, with its elevation
  range, its geo box and its world bounding box, is unchanged.
\<close>

theorem elevationRange_set_same:
  "minElevation r = minElevation (m_elevationRange t) \<Longrightarrow>
   maxElevation r = maxElevation (m_elevationRange t) \<Longrightarrow>
   calculationStatus r = calculationStatus (m_elevationRange t) \<Longrightarrow>
   elevationRange_set en r t = Inr t"
  by (simp add: elevationRange_set_def)

theorem elevationRange_set_same_witness:
  "minElevation exampleRange
     = minElevation (m_elevationRange (exec exampleEnv (ElevationRangeSet exampleRange) exampleTile)) \<and>
   maxElevation exampleRange
     = maxElevation (m_elevationRange (exec exampleEnv (ElevationRangeSet exampleRange) exampleTile)) \<and>
   calculationStatus exampleRange
     = calculationStatus (m_elevationRange (exec exampleEnv (ElevationRangeSet exampleRange) exampleTile)) \<and>
   elevationRange_set exampleEnv exampleRange
       (exec exampleEnv (ElevationRangeSet exampleRange) exampleTile)
     = Inr (exec exampleEnv (ElevationRangeSet exampleRange) exampleTile)"
proof -
  have e: "m_elevationRange (exec exampleEnv (ElevationRangeSet exampleRange) exampleTile)
           = exampleRange"
    by (simp add: elevationRange_set_def exampleRange_def exampleTile_def newTile_def
        elevateGeoBox_def Let_def)
  from e elevationRange_set_same
    [of exampleRange "exec exampleEnv (ElevationRangeSet exampleRange) exampleTile" exampleEnv]
  show ?thesis by simp
qed

lemma elevationRange_set_unbounded:
  "m_maxGeometryHeight t = None \<Longrightarrow>
     \<exists>t'. elevationRange_set en r t = Inr t' \<and> m_boundingBox t' = m_boundingBox t \<and>
          m_maxGeometryHeight t' = None"
  by (simp add: elevationRange_set_def elevateGeoBox_def Let_def)

lemma exec_ElevationRangeSet_unbounded:
  "m_maxGeometryHeight t = None \<Longrightarrow>
     m_boundingBox (exec en (ElevationRangeSet r) t) = m_boundingBox t \<and>
     m_maxGeometryHeight (exec en (ElevationRangeSet r) t) = None"
  using elevationRange_set_unbounded [of t en r] by auto

lemma run_ElevationRangeSet_unbounded:
  "m_maxGeometryHeight t = None \<Longrightarrow>
     m_boundingBox (run en (map ElevationRangeSet rs) t) = m_boundingBox t"
proof (induction rs arbitrary: t)
  case Nil
  then show ?case by simp
next
  case (Cons r rs)
  from Cons.prems exec_ElevationRangeSet_unbounded [of t en r]
  have "m_maxGeometryHeight (exec en (ElevationRangeSet r) t) = None"
    and "m_boundingBox (exec en (ElevationRangeSet r) t) = m_boundingBox t" by simp_all
  with Cons.IH [of "exec en (ElevationRangeSet r) t"] show ?case by simp
qed

lemma decodedTile_set_bounded:
  "boundingBox d = Some B \<Longrightarrow>
     m_boundingBox (decodedTile_set en (Some d) t) = B \<and>
     m_maxGeometryHeight (decodedTile_set en (Some d) t) = None"
  by (simp add: decodedTile_set_def invalidateResourceInfo_def forceHasGeometry_def
      elevateGeoBox_def updateBoundingBox_def Let_def split: option.split)

text \<open>
  C5. When a decoded payload with an explicit bounding box \<open>B\<close> is assigned, the world
  bounding box of the tile becomes \<open>B\<close> and the maximum geometry height becomes
  undefined; every elevation-range update that follows returns without throwing and
  leaves the world bounding box at \<open>B\<close>, and so does every sequence of such updates.
\<close>

theorem decoded_boundingBox_authoritative:
  assumes "boundingBox d = Some B"
  shows "m_boundingBox (decodedTile_set en (Some d) t) = B \<and>
         m_maxGeometryHeight (decodedTile_set en (Some d) t) = None \<and>
         (\<forall>r. \<exists>t'. elevationRange_set en r (decodedTile_set en (Some d) t) = Inr t' \<and>
                   m_boundingBox t' = B) \<and>
         (\<forall>rs. m_boundingBox (run en (map ElevationRangeSet rs) (decodedTile_set en (Some d) t)) = B)"
proof -
  let ?t = "decodedTile_set en (Some d) t"
  from decodedTile_set_bounded [OF assms]
  have b: "m_boundingBox ?t = B" and h: "m_maxGeometryHeight ?t = None" by simp_all
  have "\<exists>t'. elevationRange_set en r ?t = Inr t' \<and> m_boundingBox t' = B" for r
    using elevationRange_set_unbounded [OF h, of en r] b by auto
  moreover have "m_boundingBox (run en (map ElevationRangeSet rs) ?t) = B" for rs
    using run_ElevationRangeSet_unbounded [OF h, of en rs] b by simp
  ultimately show ?thesis using b h by blast
qed

text \<open>An update that does change the stored elevation range (its minimum becomes 10)
  and still leaves the box of the payload in place.\<close>

theorem decoded_boundingBox_authoritative_witness:
  "boundingBox boundedPayload = Some exampleBox \<and>
   m_boundingBox (decodedTile_set exampleEnv (Some boundedPayload) exampleTile) = exampleBox \<and>
   m_boundingBox (run exampleEnv [ElevationRangeSet exampleRange]
     (decodedTile_set exampleEnv (Some boundedPayload) exampleTile)) = exampleBox \<and>
   minElevation (m_elevationRange (run exampleEnv [ElevationRangeSet exampleRange]
     (decodedTile_set exampleEnv (Some boundedPayload) exampleTile))) = 10"
proof -
  have h: "boundingBox boundedPayload = Some exampleBox" by (simp add: boundedPayload_def)
  have "m_elevationRange (decodedTile_set exampleEnv (Some boundedPayload) exampleTile)
        = \<lparr>minElevation = 0, maxElevation = 0, calculationStatus = None\<rparr>"
    by (simp add: decodedTile_set_def invalidateResourceInfo_def forceHasGeometry_def
      elevateGeoBox_def updateBoundingBox_def Let_def exampleTile_def newTile_def boundedPayload_def)
  then have "minElevation (m_elevationRange (run exampleEnv [ElevationRangeSet exampleRange]
     (decodedTile_set exampleEnv (Some boundedPayload) exampleTile))) = 10"
    by (simp add: elevationRange_set_def exampleRange_def elevateGeoBox_def Let_def
        updateBoundingBox_def decodedTile_def split: option.split)
  with h decoded_boundingBox_authoritative [OF h, of exampleEnv exampleTile]
  show ?thesis by (metis list.simps(8,9))
qed

subsection \<open>Disposal\<close>

text \<open>
  C9. \<open>dispose\<close> is idempotent: on a tile that is already disposed it changes nothing
  (no field, no further call on another object) and cannot throw; a tile is disposed
  after \<open>dispose\<close>, so a second call in a row is such a no-op.
\<close>

theorem dispose_idempotent:
  "(m_disposed t \<longrightarrow> dispose t = t) \<and> m_disposed (dispose t) \<and> dispose (dispose t) = dispose t"
  by (simp add: dispose_def Let_def)

theorem dispose_idempotent_witness:
  "m_disposed (dispose (tileLoader_set (Some 7) exampleTile)) \<and>
   effects (dispose (tileLoader_set (Some 7) exampleTile)) = [LoaderCancel 7, TextStyleCacheClear] \<and>
   dispose (dispose (tileLoader_set (Some 7) exampleTile))
     = dispose (tileLoader_set (Some 7) exampleTile)"
proof -
  have e: "effects (dispose (tileLoader_set (Some 7) exampleTile))
           = [LoaderCancel 7, TextStyleCacheClear]"
    by (simp add: dispose_def clear_def clearTextElements_def hasTextElements_def deref_def
        groups_count_def invalidateResourceInfo_def tileLoader_set_def exampleTile_def
        newTile_def Let_def)
  have d: "m_disposed (dispose (tileLoader_set (Some 7) exampleTile))"
    by (simp add: dispose_def Let_def tileLoader_set_def exampleTile_def newTile_def)
  from d dispose_idempotent [of "dispose (tileLoader_set (Some 7) exampleTile)"]
  have "dispose (dispose (tileLoader_set (Some 7) exampleTile))
        = dispose (tileLoader_set (Some 7) exampleTile)" by blast
  with d e show ?thesis by simp
qed

lemma clearTextElements_keeps:
  "m_decodedTile (clearTextElements t) = m_decodedTile t"
  "m_tileLoader (clearTextElements t) = m_tileLoader t"
  "m_tileGeometryLoader (clearTextElements t) = m_tileGeometryLoader t"
  "m_forceHasGeometry (clearTextElements t) = m_forceHasGeometry t"
  "m_resourceInfo (clearTextElements t) = m_resourceInfo t"
  "objects (clearTextElements t) = objects t"
  "effects (clearTextElements t) = effects t"
  by (simp_all add: clearTextElements_def textElementsChanged_set_def Let_def)

lemma clear_keeps_references:
  "m_decodedTile (clear t) = m_decodedTile t \<and> m_tileLoader (clear t) = m_tileLoader t \<and>
   m_tileGeometryLoader (clear t) = m_tileGeometryLoader t"
  by (simp add: clear_def Let_def invalidateResourceInfo_def clearTextElements_keeps
      split: option.split)

lemma effects_clear_prefix: "\<exists>es. effects (clear t) = effects t @ es"
  by (simp add: clear_def Let_def invalidateResourceInfo_def clearTextElements_keeps
      split: option.split)

text \<open>
  C4. The claim: after \<open>dispose\<close> the tile reads as not visible at every frame number.
  \<open>dispose\<close> stores 0 in \<open>frameNumLastRequested\<close>, not the sentinel \<open>-1\<close> of the setter
  of \<open>isVisible\<close>, so at frame number 1 the getter compares \<open>0 \<ge> 1 - 1\<close>: a tile
  disposed before or during the first frame still reads as visible there.
\<close>

theorem dispose_visible_at_frame_1:
  "m_disposed (dispose exampleTile) \<and> frameNumLastRequested (dispose exampleTile) = 0 \<and>
   isVisible 1 (dispose exampleTile)"
  by (simp add: isVisible_def dispose_def Let_def exampleTile_def newTile_def)

text \<open>
  C8, as claimed: after \<open>dispose\<close> the tile retains neither the loader nor the decoded
  payload. On a tile with a decoded payload \<open>dispose\<close> leaves \<open>m_decodedTile\<close> in
  place; and \<open>dispose\<close> on a tile that is already disposed returns at once, so a loader
  assigned after the disposal stays.
\<close>

theorem dispose_keeps_decodedTile_counterexample:
  "m_decodedTile (dispose loadedTile) = Some emptyPayload \<and>
   m_disposed (dispose loadedTile) \<and>
   m_tileLoader (dispose (tileLoader_set (Some 9) (dispose loadedTile))) = Some 9"
  by (simp add: dispose_def clear_def clearTextElements_def hasTextElements_def deref_def
        groups_count_def loadedTile_def decodedTile_set_def invalidateResourceInfo_def
        forceHasGeometry_def elevateGeoBox_def updateBoundingBox_def tileLoader_set_def
        tileGeometryLoader_set_def emptyPayload_def exampleEnv_def exampleTile_def newTile_def
        Let_def)

text \<open>
  C8, amended. After \<open>dispose\<close> on a tile that was not disposed before, the tile holds
  neither a loader nor a geometry loader; the loader it held has been cancelled and the
  geometry loader disposed. \<open>dispose\<close> leaves the reference to the decoded payload as
  it was; that reference is dropped by \<open>removeDecodedTile\<close> and by assigning
  \<open>undefined\<close> to \<open>decodedTile\<close>.
\<close>

theorem dispose_releases_loaders:
  assumes "\<not> m_disposed t"
  shows "m_tileLoader (dispose t) = None \<and> m_tileGeometryLoader (dispose t) = None \<and>
         (\<forall>l. m_tileLoader t = Some l \<longrightarrow> LoaderCancel l \<in> set (effects (dispose t))) \<and>
         (\<forall>g. m_tileGeometryLoader t = Some g \<longrightarrow>
               GeometryLoaderDispose g \<in> set (effects (dispose t))) \<and>
         m_decodedTile (dispose t) = m_decodedTile t \<and>
         m_decodedTile (removeDecodedTile t) = None \<and>
         m_decodedTile (decodedTile_set en None t) = None"
proof -
  define t1 where "t1 = (case m_tileLoader t of
      Some l \<Rightarrow> t\<lparr>effects := effects t @ [LoaderCancel l], m_tileLoader := None\<rparr> | None \<Rightarrow> t)"
  define t2 where "t2 = (case m_tileGeometryLoader t1 of
      Some g \<Rightarrow> t1\<lparr>effects := effects t1 @ [GeometryLoaderDispose g], m_tileGeometryLoader := None\<rparr>
    | None \<Rightarrow> t1)"
  have d: "dispose t = (clear t2)\<lparr>m_disposed := True, frameNumLastRequested := 0\<rparr>"
    unfolding dispose_def t1_def t2_def Let_def using assms by simp
  have f1: "m_tileLoader t1 = None" "m_tileGeometryLoader t1 = m_tileGeometryLoader t"
    "m_decodedTile t1 = m_decodedTile t"
    by (simp_all add: t1_def split: option.split)
  have e1: "\<forall>l. m_tileLoader t = Some l \<longrightarrow> LoaderCancel l \<in> set (effects t1)"
    by (simp add: t1_def)
  have f2: "m_tileLoader t2 = None" "m_tileGeometryLoader t2 = None"
    "m_decodedTile t2 = m_decodedTile t"
    using f1 by (simp_all add: t2_def split: option.split)
  have e2: "set (effects t1) \<subseteq> set (effects t2)"
    by (auto simp: t2_def split: option.split)
  have e3: "\<forall>g. m_tileGeometryLoader t = Some g \<longrightarrow> GeometryLoaderDispose g \<in> set (effects t2)"
    using f1(2) by (simp add: t2_def)
  obtain es where es: "effects (clear t2) = effects t2 @ es"
    using effects_clear_prefix by blast
  have e4: "set (effects t2) \<subseteq> set (effects (dispose t))"
    by (simp add: d es)
  have r: "m_tileLoader (dispose t) = None" "m_tileGeometryLoader (dispose t) = None"
    "m_decodedTile (dispose t) = m_decodedTile t"
    using clear_keeps_references [of t2] f2 by (simp_all add: d)
  have x: "m_decodedTile (removeDecodedTile t) = None"
    "m_decodedTile (decodedTile_set en None t) = None"
    by (simp_all add: removeDecodedTile_def decodedTile_set_def invalidateResourceInfo_def)
  from e1 e2 e3 e4 r x show ?thesis by blast
qed

theorem dispose_releases_loaders_witness:
  "\<not> m_disposed loadedTile \<and> m_tileLoader loadedTile = Some 7 \<and>
   m_tileLoader (dispose loadedTile) = None \<and> m_tileGeometryLoader (dispose loadedTile) = None \<and>
   LoaderCancel 7 \<in> set (effects (dispose loadedTile)) \<and>
   m_decodedTile (dispose loadedTile) = m_decodedTile loadedTile"
proof -
  have h: "\<not> m_disposed loadedTile" and l: "m_tileLoader loadedTile = Some 7"
    by (simp_all add: loadedTile_def decodedTile_set_def invalidateResourceInfo_def
        forceHasGeometry_def elevateGeoBox_def updateBoundingBox_def tileLoader_set_def
        tileGeometryLoader_set_def emptyPayload_def exampleEnv_def exampleTile_def newTile_def
        Let_def)
  from dispose_releases_loaders [OF h] l h show ?thesis by blast
qed

subsection \<open>Forced geometry flag\<close>

lemma force_clear: "m_forceHasGeometry (clear t) = m_forceHasGeometry t"
  by (simp add: clear_def Let_def invalidateResourceInfo_def clearTextElements_keeps
      split: option.split)

lemma force_dispose: "m_forceHasGeometry (dispose t) = m_forceHasGeometry t"
  by (simp add: dispose_def Let_def force_clear split: option.split)

lemma force_addTextElement: "m_forceHasGeometry (addTextElement e t) = m_forceHasGeometry t"
  by (simp add: addTextElement_def textElementsChanged_set_def clone_def Let_def)

lemma force_removeTextElement:
  "m_forceHasGeometry (snd (removeTextElement e t)) = m_forceHasGeometry t"
  by (simp add: removeTextElement_def textElementsChanged_set_def clone_def Let_def
      split: prod.split)

lemma force_elevationRange_set:
  "m_forceHasGeometry (exec en (ElevationRangeSet r) t) = m_forceHasGeometry t"
  by (simp add: elevationRange_set_def elevateGeoBox_def updateBoundingBox_def Let_def)

lemma force_decodedTile_set:
  "m_forceHasGeometry t = Some True \<Longrightarrow> m_forceHasGeometry (decodedTile_set en d t) = Some True"
  by (simp add: decodedTile_set_def invalidateResourceInfo_def forceHasGeometry_def
      elevateGeoBox_def updateBoundingBox_def Let_def split: option.split)

lemma force_getResourceInfo:
  "m_forceHasGeometry (snd (getResourceInfo en t)) = m_forceHasGeometry t"
  by (simp add: getResourceInfo_def computeResourceInfo_def split: option.split)

lemma force_visibleArea_set: "m_forceHasGeometry (visibleArea_set a t) = m_forceHasGeometry t"
  by (simp add: visibleArea_set_def Let_def split: option.split)

lemma force_memoryUsage:
  "m_forceHasGeometry (snd (memoryUsage en t)) = m_forceHasGeometry t"
  by (simp add: memoryUsage_def computeResourceInfo_def split: option.split)

lemma force_userTextElements:
  "m_forceHasGeometry (snd (userTextElements en t)) = m_forceHasGeometry t"
  by (simp add: userTextElements_def Let_def split: option.split)

lemma exec_keeps_forced:
  assumes "m_forceHasGeometry t = Some True" and "\<forall>v. c = ForceHasGeometry v \<longrightarrow> v = Some True"
  shows "m_forceHasGeometry (exec en c t) = Some True"
proof (cases c)
  case (ElevationRangeSet r)
  then show ?thesis using assms force_elevationRange_set [of en r t] by simp
next
  case (DecodedTileSet d)
  then show ?thesis using assms force_decodedTile_set by simp
next
  case (ForceHasGeometry v)
  then show ?thesis using assms by (simp add: forceHasGeometry_def)
qed (use assms in \<open>simp_all add: isVisible_set_def resetVisibilityCounter_def force_visibleArea_set
      force_getResourceInfo force_memoryUsage force_userTextElements addUserTextElement_def
      removeUserTextElement_def invalidateResourceInfo_def addOwnedTexture_def force_addTextElement
      addBlockingElement_def force_removeTextElement textElementsChanged_set_def
      clearTextElements_keeps removeDecodedTile_def tileLoader_set_def tileGeometryLoader_set_def
      animatedExtrusionTileHandler_set_def force_clear force_dispose\<close>)

lemma run_keeps_forced:
  "m_forceHasGeometry t = Some True \<Longrightarrow>
   \<forall>c\<in>set cs. \<forall>v. c = ForceHasGeometry v \<longrightarrow> v = Some True \<Longrightarrow>
   m_forceHasGeometry (run en cs t) = Some True"
proof (induction cs arbitrary: t)
  case Nil
  then show ?case by simp
next
  case (Cons c cs)
  from Cons.prems have "m_forceHasGeometry (exec en c t) = Some True"
    by (intro exec_keeps_forced) simp_all
  with Cons show ?case by simp
qed

lemma decodedTile_set_empty_forces:
  "geometries d = [] \<Longrightarrow> m_forceHasGeometry (decodedTile_set en (Some d) t) = Some True"
  by (simp add: decodedTile_set_def invalidateResourceInfo_def forceHasGeometry_def
      elevateGeoBox_def updateBoundingBox_def Let_def split: option.split)

lemma objects_clear: "objects (clear t) = []"
  by (simp add: clear_def Let_def invalidateResourceInfo_def clearTextElements_keeps
      split: option.split)

text \<open>
  C7, as claimed: after a decoded payload without geometries is assigned, \<open>hasGeometry\<close>
  stays true until \<open>forceHasGeometry(undefined)\<close> is called. The call
  \<open>forceHasGeometry(false)\<close> is not that call and makes \<open>hasGeometry\<close> false.
\<close>

theorem forceHasGeometry_false_counterexample:
  "geometries emptyPayload = [] \<and>
   hasGeometry (decodedTile_set exampleEnv (Some emptyPayload) exampleTile) \<and>
   ForceHasGeometry None \<notin> set [ForceHasGeometry (Some False)] \<and>
   \<not> hasGeometry (run exampleEnv [ForceHasGeometry (Some False)]
        (decodedTile_set exampleEnv (Some emptyPayload) exampleTile))"
proof -
  have g: "geometries emptyPayload = []" by (simp add: emptyPayload_def)
  have "m_forceHasGeometry (decodedTile_set exampleEnv (Some emptyPayload) exampleTile) = Some True"
    using g by (rule decodedTile_set_empty_forces)
  then have "hasGeometry (decodedTile_set exampleEnv (Some emptyPayload) exampleTile)"
    by (simp add: hasGeometry_def)
  then show ?thesis using g by (simp add: hasGeometry_def forceHasGeometry_def)
qed

text \<open>
  C7, amended. After a decoded payload whose list of geometries is empty is assigned,
  \<open>hasGeometry\<close> is true, and it is true after every sequence of calls on the tile
  in which \<open>forceHasGeometry\<close> is called with no other value than \<open>true\<close>, and at
  every point of such a sequence. Once \<open>forceHasGeometry(undefined)\<close> is called,
  \<open>hasGeometry\<close> tells whether the tile has objects.
\<close>

theorem empty_payload_hasGeometry:
  assumes "geometries d = []"
    and "\<forall>c\<in>set cs. \<forall>v. c = ForceHasGeometry v \<longrightarrow> v = Some True"
  shows "hasGeometry (decodedTile_set en (Some d) t) \<and>
         (\<forall>n. hasGeometry (run en (take n cs) (decodedTile_set en (Some d) t))) \<and>
         (hasGeometry (forceHasGeometry None (run en cs (decodedTile_set en (Some d) t)))
            \<longleftrightarrow> objects (run en cs (decodedTile_set en (Some d) t)) \<noteq> [])"
proof -
  let ?t = "decodedTile_set en (Some d) t"
  have f: "m_forceHasGeometry ?t = Some True"
    using assms(1) by (rule decodedTile_set_empty_forces)
  have "m_forceHasGeometry (run en (take n cs) ?t) = Some True" for n
  proof (rule run_keeps_forced [OF f])
    show "\<forall>c\<in>set (take n cs). \<forall>v. c = ForceHasGeometry v \<longrightarrow> v = Some True"
      using assms(2) by (meson in_set_takeD)
  qed
  then have "hasGeometry (run en (take n cs) ?t)" for n
    by (simp add: hasGeometry_def)
  moreover have "hasGeometry ?t" using f by (simp add: hasGeometry_def)
  moreover have "hasGeometry (forceHasGeometry None (run en cs ?t))
                 \<longleftrightarrow> objects (run en cs ?t) \<noteq> []"
    by (simp add: hasGeometry_def forceHasGeometry_def)
  ultimately show ?thesis by blast
qed

theorem empty_payload_hasGeometry_witness:
  "geometries emptyPayload = [] \<and>
   hasGeometry (decodedTile_set exampleEnv (Some emptyPayload) exampleTile) \<and>
   hasGeometry (run exampleEnv [AddUserTextElement label1, RemoveDecodedTile, ForceHasGeometry (Some True), Dispose, Clear]
     (decodedTile_set exampleEnv (Some emptyPayload) exampleTile)) \<and>
   \<not> hasGeometry (forceHasGeometry None
     (run exampleEnv [AddUserTextElement label1, RemoveDecodedTile, ForceHasGeometry (Some True), Dispose, Clear]
       (decodedTile_set exampleEnv (Some emptyPayload) exampleTile)))"
proof -
  let ?cs = "[AddUserTextElement label1, RemoveDecodedTile, ForceHasGeometry (Some True), Dispose, Clear]"
  let ?t = "decodedTile_set exampleEnv (Some emptyPayload) exampleTile"
  have g: "geometries emptyPayload = []" by (simp add: emptyPayload_def)
  have c: "\<forall>c\<in>set ?cs. \<forall>v. c = ForceHasGeometry v \<longrightarrow> v = Some True" by simp
  have o: "objects (run exampleEnv ?cs ?t) = []"
    by (simp add: objects_clear)
  have k: "take 5 ?cs = ?cs" by simp
  from empty_payload_hasGeometry [OF g c, of exampleEnv exampleTile]
  have "hasGeometry ?t"
    and "hasGeometry (run exampleEnv (take 5 ?cs) ?t)"
    and "hasGeometry (forceHasGeometry None (run exampleEnv ?cs ?t)) \<longleftrightarrow>
           objects (run exampleEnv ?cs ?t) \<noteq> []"
    by blast+
  with g o k show ?thesis by metis
qed

subsection \<open>Resource info\<close>

lemma info_addTextElement: "m_resourceInfo (addTextElement e t) = m_resourceInfo t"
  by (simp add: addTextElement_def textElementsChanged_set_def clone_def Let_def)

lemma info_removeTextElement: "m_resourceInfo (snd (removeTextElement e t)) = m_resourceInfo t"
  by (simp add: removeTextElement_def textElementsChanged_set_def clone_def Let_def
      split: prod.split)

lemma info_decodedTile_set: "m_resourceInfo (decodedTile_set en d t) = None"
  by (simp add: decodedTile_set_def invalidateResourceInfo_def forceHasGeometry_def
      elevateGeoBox_def updateBoundingBox_def Let_def split: option.split)

lemma info_clear: "m_resourceInfo (clear t) = None"
  by (simp add: clear_def Let_def invalidateResourceInfo_def)

lemma info_dispose: "\<not> m_disposed t \<Longrightarrow> m_resourceInfo (dispose t) = None"
  by (simp add: dispose_def Let_def info_clear)

lemma getResourceInfo_fresh:
  "m_resourceInfo t = None \<Longrightarrow> fst (getResourceInfo en t) = resourceInfoOf en t"
  by (simp add: getResourceInfo_def)

lemma getResourceInfo_cached:
  "m_resourceInfo t = Some info \<Longrightarrow> fst (getResourceInfo en t) = info"
  by (simp add: getResourceInfo_def)

lemma snapshotTile_eq:
  "snapshotTile = exampleTile\<lparr>m_resourceInfo := Some \<lparr>heapSize = 0, gpuSize = 0, num3dObjects = 0,
      numTextElements = 0, numUserTextElements = 0\<rparr>\<rparr>"
  by (simp add: snapshotTile_def getResourceInfo_def computeResourceInfo_def resourceInfoOf_def
      groups_count_def deref_def exampleTile_def newTile_def exampleEnv_def Let_def)

lemma heap_addTextElement_snapshotTile:
  "heap (addTextElement label1 snapshotTile) = [[(0, [1])]] \<and>
   m_textElementGroups (addTextElement label1 snapshotTile) = 0"
  by (simp add: snapshotTile_eq addTextElement_def textElementGroups_def
      textElementsChanged_set_def deref_def label1_def exampleTile_def newTile_def Let_def)

text \<open>
  C2, as claimed: after a mutation of the label store, \<open>getResourceInfo\<close> never returns
  the snapshot computed before it. \<open>addTextElement\<close> does not invalidate the snapshot:
  on a fresh tile whose resource info has been read, \<open>getResourceInfo\<close> after
  \<open>addTextElement\<close> returns that same snapshot, with no text element counted, while
  the tile holds one.
\<close>

theorem stale_resourceInfo_counterexample:
  "fst (getResourceInfo exampleEnv (addTextElement label1 snapshotTile))
     = fst (getResourceInfo exampleEnv exampleTile) \<and>
   numTextElements (fst (getResourceInfo exampleEnv (addTextElement label1 snapshotTile))) = 0 \<and>
   numTextElements (resourceInfoOf exampleEnv (addTextElement label1 snapshotTile)) = 1"
proof -
  have i: "m_resourceInfo snapshotTile = Some \<lparr>heapSize = 0, gpuSize = 0, num3dObjects = 0,
      numTextElements = 0, numUserTextElements = 0\<rparr>"
    by (simp add: snapshotTile_eq)
  have a: "fst (getResourceInfo exampleEnv (addTextElement label1 snapshotTile))
    = \<lparr>heapSize = 0, gpuSize = 0, num3dObjects = 0, numTextElements = 0, numUserTextElements = 0\<rparr>"
    by (rule getResourceInfo_cached) (simp add: info_addTextElement i)
  have b: "fst (getResourceInfo exampleEnv exampleTile)
    = \<lparr>heapSize = 0, gpuSize = 0, num3dObjects = 0, numTextElements = 0, numUserTextElements = 0\<rparr>"
    by (simp add: getResourceInfo_def computeResourceInfo_def resourceInfoOf_def
      groups_count_def deref_def exampleTile_def newTile_def exampleEnv_def Let_def)
  have c: "numTextElements (resourceInfoOf exampleEnv (addTextElement label1 snapshotTile)) = 1"
    using heap_addTextElement_snapshotTile
    by (simp add: resourceInfoOf_def groups_count_def deref_def Let_def split: prod.split)
  from a b c show ?thesis by simp
qed

text \<open>
  C2, amended. After the decoded payload is replaced or cleared, after \<open>clear\<close>, after
  \<open>dispose\<close> on a tile not yet disposed and after \<open>invalidateResourceInfo\<close>, the next
  \<open>getResourceInfo\<close> returns a snapshot computed from the tile as it is then.
  \<open>addTextElement\<close>, \<open>removeTextElement\<close>, \<open>clearTextElements\<close> and a push onto
  \<open>objects\<close> do not invalidate: while a snapshot is cached, \<open>getResourceInfo\<close> after
  them returns that snapshot, until \<open>invalidateResourceInfo\<close> is called.
\<close>

theorem resourceInfo_invalidation:
  "fst (getResourceInfo en (decodedTile_set en d t)) = resourceInfoOf en (decodedTile_set en d t) \<and>
   fst (getResourceInfo en (removeDecodedTile t)) = resourceInfoOf en (removeDecodedTile t) \<and>
   fst (getResourceInfo en (clear t)) = resourceInfoOf en (clear t) \<and>
   (\<not> m_disposed t \<longrightarrow> fst (getResourceInfo en (dispose t)) = resourceInfoOf en (dispose t)) \<and>
   fst (getResourceInfo en (invalidateResourceInfo t)) = resourceInfoOf en (invalidateResourceInfo t) \<and>
   (m_resourceInfo t = Some info \<longrightarrow>
      fst (getResourceInfo en (addTextElement e t)) = info \<and>
      fst (getResourceInfo en (snd (removeTextElement e t))) = info \<and>
      fst (getResourceInfo en (clearTextElements t)) = info \<and>
      fst (getResourceInfo en (exec en (ObjectsPush object) t)) = info)"
proof -
  have "fst (getResourceInfo en (decodedTile_set en d t)) = resourceInfoOf en (decodedTile_set en d t)"
    by (rule getResourceInfo_fresh) (rule info_decodedTile_set)
  moreover have "fst (getResourceInfo en (removeDecodedTile t)) = resourceInfoOf en (removeDecodedTile t)"
    by (rule getResourceInfo_fresh) (simp add: removeDecodedTile_def invalidateResourceInfo_def)
  moreover have "fst (getResourceInfo en (clear t)) = resourceInfoOf en (clear t)"
    by (rule getResourceInfo_fresh) (rule info_clear)
  moreover have "fst (getResourceInfo en (dispose t)) = resourceInfoOf en (dispose t)"
    if "\<not> m_disposed t"
    by (rule getResourceInfo_fresh) (rule info_dispose [OF that])
  moreover have "fst (getResourceInfo en (invalidateResourceInfo t))
                 = resourceInfoOf en (invalidateResourceInfo t)"
    by (rule getResourceInfo_fresh) (simp add: invalidateResourceInfo_def)
  moreover have "fst (getResourceInfo en (addTextElement e t)) = info"
    "fst (getResourceInfo en (snd (removeTextElement e t))) = info"
    "fst (getResourceInfo en (clearTextElements t)) = info"
    "fst (getResourceInfo en (exec en (ObjectsPush object) t)) = info"
    if "m_resourceInfo t = Some info"
    using that
    by (simp_all add: getResourceInfo_cached info_addTextElement info_removeTextElement
        clearTextElements_keeps)
  ultimately show ?thesis by blast
qed

theorem resourceInfo_invalidation_witness:
  "m_resourceInfo snapshotTile = Some (fst (getResourceInfo exampleEnv exampleTile)) \<and>
   fst (getResourceInfo exampleEnv (addTextElement label1 snapshotTile))
     = fst (getResourceInfo exampleEnv exampleTile) \<and>
   \<not> m_disposed (addTextElement label1 snapshotTile) \<and>
   fst (getResourceInfo exampleEnv (dispose (addTextElement label1 snapshotTile)))
     = resourceInfoOf exampleEnv (dispose (addTextElement label1 snapshotTile)) \<and>
   fst (getResourceInfo exampleEnv (invalidateResourceInfo (addTextElement label1 snapshotTile)))
     = resourceInfoOf exampleEnv (invalidateResourceInfo (addTextElement label1 snapshotTile))"
proof -
  have i: "m_resourceInfo snapshotTile = Some (fst (getResourceInfo exampleEnv exampleTile))"
    by (simp add: snapshotTile_def getResourceInfo_def computeResourceInfo_def exampleTile_def
        newTile_def Let_def)
  have n: "\<not> m_disposed (addTextElement label1 snapshotTile)"
    by (simp add: snapshotTile_eq addTextElement_def textElementGroups_def
      textElementsChanged_set_def exampleTile_def newTile_def Let_def)
  from i resourceInfo_invalidation [of exampleEnv _ snapshotTile
      "fst (getResourceInfo exampleEnv exampleTile)" label1]
  have "fst (getResourceInfo exampleEnv (addTextElement label1 snapshotTile))
     = fst (getResourceInfo exampleEnv exampleTile)" by blast
  moreover from n resourceInfo_invalidation [of exampleEnv _ "addTextElement label1 snapshotTile"]
  have "fst (getResourceInfo exampleEnv (dispose (addTextElement label1 snapshotTile)))
     = resourceInfoOf exampleEnv (dispose (addTextElement label1 snapshotTile))"
   and "fst (getResourceInfo exampleEnv (invalidateResourceInfo (addTextElement label1 snapshotTile)))
     = resourceInfoOf exampleEnv (invalidateResourceInfo (addTextElement label1 snapshotTile))"
    by blast+
  ultimately show ?thesis using i n by simp
qed

subsection \<open>The label store\<close>

lemma consumedTile_eq:
  "consumedTile = exampleTile\<lparr>m_textElementsChanged := Some False, heap := [[(0, [1])]]\<rparr>"
  by (simp add: consumedTile_def addTextElement_def textElementGroups_def
      textElementsChanged_set_def deref_def label1_def exampleTile_def newTile_def Let_def)

lemma addTextElement_consumed:
  assumes "m_textElementsChanged t = Some False"
  shows "addTextElement e t =
     t\<lparr>heap := (heap t)[m_textElementGroups t := groups_add e (deref t (m_textElementGroups t))]
            @ [deref (t\<lparr>heap := (heap t)[m_textElementGroups t :=
                  groups_add e (deref t (m_textElementGroups t))]\<rparr>) (m_textElementGroups t)],
       m_textElementGroups := length (heap t),
       m_textElementsChanged := Some True\<rparr>"
  using assms
  by (simp add: addTextElement_def textElementGroups_def textElementsChanged_set_def clone_def
      Let_def)

lemma addTextElement_changed:
  assumes "m_textElementsChanged t \<noteq> Some False"
  shows "addTextElement e t =
     t\<lparr>heap := (heap t)[m_textElementGroups t := groups_add e (deref t (m_textElementGroups t))],
       m_textElementsChanged := Some True\<rparr>"
  using assms
  by (simp add: addTextElement_def textElementGroups_def textElementsChanged_set_def Let_def)

text \<open>
  C3, as claimed: when the change flag is \<open>false\<close>, the store is cloned before the
  mutation, so that a reader holding the previous store sees no change to it.
  \<open>addTextElement\<close> adds to the live store first and clones afterwards: the store the
  reader holds, with label 1 before the call, has labels 1 and 2 after it.
\<close>

theorem reader_sees_add_counterexample:
  "m_textElementsChanged consumedTile = Some False \<and>
   deref consumedTile (m_textElementGroups consumedTile) = [(0, [1])] \<and>
   deref (addTextElement label2 consumedTile) (m_textElementGroups consumedTile) = [(0, [1, 2])]"
proof -
  have f: "m_textElementsChanged consumedTile = Some False" by (simp add: consumedTile_eq)
  have r: "m_textElementGroups consumedTile = 0" "heap consumedTile = [[(0, [1])]]"
    by (simp_all add: consumedTile_eq exampleTile_def newTile_def Let_def)
  have d: "deref consumedTile 0 = [(0, [1])]" by (simp add: deref_def r)
  have "deref (addTextElement label2 consumedTile) 0 = [(0, [1, 2])]"
    by (simp add: addTextElement_consumed [OF f] r d deref_def label2_def)
  with f d r show ?thesis by simp
qed

text \<open>
  C3, amended. When the change flag is \<open>false\<close> at a call of \<open>addTextElement\<close>
  (on a tile whose live store is an allocated object, as it is from the constructor on),
  the label is added to the live store in place, so a reader holding that store sees the
  new label; the store is then cloned, and the clone, a distinct object with the same
  groups and the new label, becomes the live store; no other store changes, and the
  flag becomes \<open>true\<close>. A second \<open>addTextElement\<close> without a reset of the flag adds
  to that same live store and allocates no further clone.
\<close>

theorem addTextElement_clone_after_add:
  assumes "m_textElementsChanged t = Some False"
    and "m_textElementGroups t < length (heap t)"
  shows "m_textElementGroups (addTextElement e t) \<noteq> m_textElementGroups t \<and>
         m_textElementGroups (addTextElement e t) = length (heap t) \<and>
         deref (addTextElement e t) (m_textElementGroups (addTextElement e t))
           = groups_add e (deref t (m_textElementGroups t)) \<and>
         deref (addTextElement e t) (m_textElementGroups t)
           = groups_add e (deref t (m_textElementGroups t)) \<and>
         (\<forall>r. r \<noteq> m_textElementGroups t \<and> r < length (heap t) \<longrightarrow>
              deref (addTextElement e t) r = deref t r) \<and>
         m_textElementsChanged (addTextElement e t) = Some True \<and>
         m_textElementGroups (addTextElement e' (addTextElement e t))
           = m_textElementGroups (addTextElement e t) \<and>
         length (heap (addTextElement e' (addTextElement e t))) = length (heap (addTextElement e t)) \<and>
         deref (addTextElement e' (addTextElement e t)) (m_textElementGroups (addTextElement e t))
           = groups_add e' (groups_add e (deref t (m_textElementGroups t)))"
proof -
  let ?r = "m_textElementGroups t"
  let ?t' = "addTextElement e t"
  note a = addTextElement_consumed [OF assms(1), of e]
  have r: "m_textElementGroups ?t' = length (heap t)" by (simp add: a)
  have ne: "m_textElementGroups ?t' \<noteq> ?r" using assms(2) r by simp
  have new: "deref ?t' (m_textElementGroups ?t') = groups_add e (deref t ?r)"
    using assms(2) by (simp add: a deref_def nth_append)
  have old: "deref ?t' ?r = groups_add e (deref t ?r)"
    using assms(2) by (simp add: a deref_def nth_append)
  have others: "\<forall>r. r \<noteq> ?r \<and> r < length (heap t) \<longrightarrow> deref ?t' r = deref t r"
    using assms(2) by (simp add: a deref_def nth_append)
  have ch: "m_textElementsChanged ?t' = Some True" by (simp add: a)
  then have ch': "m_textElementsChanged ?t' \<noteq> Some False" by simp
  note b = addTextElement_changed [OF ch', of e']
  have same: "m_textElementGroups (addTextElement e' ?t') = m_textElementGroups ?t'"
    by (simp add: b)
  have len: "length (heap (addTextElement e' ?t')) = length (heap ?t')"
    by (simp add: b)
  have lt: "m_textElementGroups ?t' < length (heap ?t')" by (simp add: a)
  have second: "deref (addTextElement e' ?t') (m_textElementGroups ?t')
                = groups_add e' (groups_add e (deref t ?r))"
    using lt new by (simp add: b deref_def)
  from r ne new old others ch same len second show ?thesis by blast
qed

theorem addTextElement_clone_after_add_witness:
  "m_textElementsChanged consumedTile = Some False \<and>
   m_textElementGroups consumedTile < length (heap consumedTile) \<and>
   m_textElementGroups (addTextElement label2 consumedTile) \<noteq> m_textElementGroups consumedTile \<and>
   deref (addTextElement label2 consumedTile) (m_textElementGroups (addTextElement label2 consumedTile))
     = [(0, [1, 2])] \<and>
   m_textElementGroups (addTextElement label1 (addTextElement label2 consumedTile))
     = m_textElementGroups (addTextElement label2 consumedTile)"
proof -
  have f: "m_textElementsChanged consumedTile = Some False" by (simp add: consumedTile_eq)
  have r: "m_textElementGroups consumedTile = 0" "heap consumedTile = [[(0, [1])]]"
    by (simp_all add: consumedTile_eq exampleTile_def newTile_def Let_def)
  have l: "m_textElementGroups consumedTile < length (heap consumedTile)" by (simp add: r)
  have g: "groups_add label2 (deref consumedTile (m_textElementGroups consumedTile)) = [(0, [1, 2])]"
    by (simp add: deref_def r label2_def)
  note th = addTextElement_clone_after_add [OF f l, of label2 label1]
  from th have 1: "m_textElementGroups (addTextElement label2 consumedTile)
                   \<noteq> m_textElementGroups consumedTile" by blast
  from th have "deref (addTextElement label2 consumedTile)
                  (m_textElementGroups (addTextElement label2 consumedTile))
                = groups_add label2 (deref consumedTile (m_textElementGroups consumedTile))"
    by blast
  from this g have 2: "deref (addTextElement label2 consumedTile)
                  (m_textElementGroups (addTextElement label2 consumedTile)) = [(0, [1, 2])]"
    by (rule trans)
  from th have 3: "m_textElementGroups (addTextElement label1 (addTextElement label2 consumedTile))
     = m_textElementGroups (addTextElement label2 consumedTile)" by blast
  from f l 1 2 3 show ?thesis by blast
qed

end
